theory Spec2Isabelle
  imports Main "HOL-Library.Word"
begin

section \<open>JavaScript values\<close>

text \<open>
  The values that travel through the request layer. An object is the list of its own
  enumerable string-keyed properties in the order a \<^verbatim>\<open>for (key in o)\<close> loop visits them; an
  array is the list of its elements. A number is an integer from \<open>-2^53\<close> to \<open>2^53 - 1\<close>, a
  word of 54 bits read as a signed value: each of them is a Number, and the string
  conversion of each is its decimal notation. The values are data: none of them is a
  function, so a property that is called as a method is never callable.
\<close>

datatype jsval =
    JUndefined
  | JNull
  | JBool bool
  | JNum "54 word"
  | JStr string
  | JArr "jsval list"
  | JObj "(string \<times> jsval) list"

text \<open>Truthiness, as tested by \<^verbatim>\<open>if (v)\<close>, \<^verbatim>\<open>!v\<close> and \<^verbatim>\<open>v ? a : b\<close>.\<close>

fun truthy :: "jsval \<Rightarrow> bool" where
  "truthy JUndefined = False"
| "truthy JNull = False"
| "truthy (JBool b) = b"
| "truthy (JNum n) = (n \<noteq> 0)"
| "truthy (JStr s) = (s \<noteq> [])"
| "truthy (JArr vs) = True"
| "truthy (JObj ps) = True"

text \<open>The \<^verbatim>\<open>typeof\<close> operator.\<close>

fun typeof :: "jsval \<Rightarrow> string" where
  "typeof JUndefined = ''undefined''"
| "typeof JNull = ''object''"
| "typeof (JBool b) = ''boolean''"
| "typeof (JNum n) = ''number''"
| "typeof (JStr s) = ''string''"
| "typeof (JArr vs) = ''object''"
| "typeof (JObj ps) = ''object''"

subsection \<open>Errors\<close>

text \<open>
  What a promise is rejected with: an error the service creates, the \<^verbatim>\<open>error\<close> of an error
  event, or a \<^verbatim>\<open>TypeError\<close> of the language, whose message is the engine's:
  \<open>NotAFunction m\<close> when the property \<open>m\<close> that is called as a method is not a function,
  \<open>NotPrimitive\<close> when an object cannot be converted to a primitive value.
\<close>

datatype rejection =
    TypeError string
  | Error string
  | SyntaxError string
  | Reason jsval
  | NotAFunction string
  | NotPrimitive

subsection \<open>Decimal notation\<close>

definition digit_char :: "nat \<Rightarrow> char" where
  "digit_char d = ''0123456789'' ! d"

fun show_nat :: "nat \<Rightarrow> string" where
  "show_nat n = (if n < 10 then [digit_char n] else show_nat (n div 10) @ [digit_char (n mod 10)])"

declare show_nat.simps [simp del]

definition show_int :: "int \<Rightarrow> string" where
  "show_int i = (if i < 0 then CHR ''-'' # show_nat (nat (- i)) else show_nat (nat i))"

subsection \<open>Properties of an object\<close>

text \<open>
  The pairs visited by \<^verbatim>\<open>for (var key in o) if (o.hasOwnProperty(key))\<close>: the own enumerable
  properties. The keys of an array are its indices.
\<close>

fun own_props :: "jsval \<Rightarrow> (string \<times> jsval) list" where
  "own_props (JObj ps) = ps"
| "own_props (JArr vs) = zip (map show_nat [0..<length vs]) vs"
| "own_props v = []"

text \<open>Reading \<^verbatim>\<open>o[k]\<close> and the assignment \<^verbatim>\<open>o[k] = v\<close> on the property list.\<close>

definition get_prop :: "(string \<times> jsval) list \<Rightarrow> string \<Rightarrow> jsval" where
  "get_prop ps k = (case map_of ps k of None \<Rightarrow> JUndefined | Some v \<Rightarrow> v)"

fun set_prop :: "(string \<times> jsval) list \<Rightarrow> string \<Rightarrow> jsval \<Rightarrow> (string \<times> jsval) list" where
  "set_prop [] k v = [(k, v)]"
| "set_prop ((k', v') # ps) k v =
     (if k' = k then (k, v) # ps else (k', v') # set_prop ps k v)"

subsection \<open>String conversion\<close>

text \<open>
  The conversion a template literal \<^verbatim>\<open>`${v}`\<close> applies: a string is taken verbatim, an array
  is its elements joined by a comma (with \<^verbatim>\<open>null\<close> and \<^verbatim>\<open>undefined\<close> elements empty). A plain
  object is \<^verbatim>\<open>[object Object]\<close>, unless it has an own property \<^verbatim>\<open>toString\<close>: that is not a
  function, and neither its \<^verbatim>\<open>valueOf\<close> nor the inherited one yields a primitive value, so
  the conversion throws.
\<close>

fun ToString :: "jsval \<Rightarrow> rejection + string"
  and ToString_elems :: "jsval list \<Rightarrow> rejection + string"
where
  "ToString JUndefined = Inr ''undefined''"
| "ToString JNull = Inr ''null''"
| "ToString (JBool b) = Inr (if b then ''true'' else ''false'')"
| "ToString (JNum n) = Inr (show_int (sint n))"
| "ToString (JStr s) = Inr s"
| "ToString (JArr vs) = ToString_elems vs"
| "ToString (JObj ps) = (if map_of ps ''toString'' = None then Inr ''[object Object]'' else Inl NotPrimitive)"
| "ToString_elems [] = Inr []"
| "ToString_elems (v # vs) =
     (case (if v = JUndefined \<or> v = JNull then Inr [] else ToString v) of
        Inl e \<Rightarrow> Inl e
      | Inr s \<Rightarrow>
          if vs = [] then Inr s
          else (case ToString_elems vs of Inl e \<Rightarrow> Inl e | Inr r \<Rightarrow> Inr (s @ CHR '','' # r)))"

subsection \<open>JSON.stringify\<close>

definition hex_char :: "nat \<Rightarrow> char" where
  "hex_char d = ''0123456789abcdef'' ! d"

text \<open>The escapes of a string in JSON text: the quote, the backslash and the control characters.\<close>

definition quote_char :: "char \<Rightarrow> string" where
  "quote_char c =
     (if c = CHR 0x22 then [CHR 0x5C, CHR 0x22]
      else if c = CHR 0x5C then [CHR 0x5C, CHR 0x5C]
      else if c = CHR 0x08 then [CHR 0x5C, CHR ''b'']
      else if c = CHR 0x09 then [CHR 0x5C, CHR ''t'']
      else if c = CHR 0x0A then [CHR 0x5C, CHR ''n'']
      else if c = CHR 0x0C then [CHR 0x5C, CHR ''f'']
      else if c = CHR 0x0D then [CHR 0x5C, CHR ''r'']
      else if (of_char c :: nat) < 32
        then [CHR 0x5C, CHR ''u'', CHR ''0'', CHR ''0'',
              hex_char ((of_char c :: nat) div 16), hex_char ((of_char c :: nat) mod 16)]
      else [c])"

definition quote_string :: "string \<Rightarrow> string" where
  "quote_string s = CHR 0x22 # concat (map quote_char s) @ [CHR 0x22]"

text \<open>
  \<^verbatim>\<open>JSON.stringify(v)\<close> without a replacer or indentation. The result is \<^verbatim>\<open>undefined\<close>
  (here \<open>None\<close>) for \<^verbatim>\<open>undefined\<close>; inside an array \<^verbatim>\<open>undefined\<close> is written \<^verbatim>\<open>null\<close>, inside an
  object a property whose value is \<^verbatim>\<open>undefined\<close> is left out.
\<close>

fun stringify :: "jsval \<Rightarrow> string option"
  and stringify_elems :: "jsval list \<Rightarrow> string"
  and stringify_props :: "bool \<Rightarrow> (string \<times> jsval) list \<Rightarrow> string"
where
  "stringify JUndefined = None"
| "stringify JNull = Some ''null''"
| "stringify (JBool b) = Some (if b then ''true'' else ''false'')"
| "stringify (JNum n) = Some (show_int (sint n))"
| "stringify (JStr s) = Some (quote_string s)"
| "stringify (JArr vs) = Some (CHR ''['' # stringify_elems vs @ '']'')"
| "stringify (JObj ps) = Some (CHR ''{'' # stringify_props True ps @ ''}'')"
| "stringify_elems [] = []"
| "stringify_elems (v # vs) =
     (case stringify v of None \<Rightarrow> ''null'' | Some s \<Rightarrow> s)
     @ (if vs = [] then [] else CHR '','' # stringify_elems vs)"
| "stringify_props first [] = []"
| "stringify_props first ((k, v) # ps) =
     (case stringify v of
        None \<Rightarrow> stringify_props first ps
      | Some s \<Rightarrow> (if first then [] else '','') @ quote_string k @ CHR '':'' # s
                 @ stringify_props False ps)"

definition JSON_stringify :: "jsval \<Rightarrow> jsval" where
  "JSON_stringify v = (case stringify v of None \<Rightarrow> JUndefined | Some s \<Rightarrow> JStr s)"

section \<open>The request service\<close>

subsection \<open>Request options and the objects the caller shares with the service\<close>

datatype http_verb = GET | POST | PUT | DELETE | HEAD | OPTIONS

record credential =
  username :: string
  password :: "string option"

type_synonym addr = nat

text \<open>
  \<^verbatim>\<open>IRequestOptions\<close>. An absent field is \<open>None\<close> (an absent body is \<^verbatim>\<open>undefined\<close>). The
  headers are a mapping from header name to value, held by reference: the options object
  and the headers object are objects of the caller, which the service reads and writes
  in place. The field \<^verbatim>\<open>method\<close> is \<open>http_method\<close> here. The fields marked as not yet
  supported are never read and are left out.
\<close>

record request_options =
  http_method :: "http_verb option"
  headers :: "addr option"
  body :: jsval
  credentials :: "credential option"

definition empty_options :: request_options where
  "empty_options = \<lparr>http_method = None, headers = None, body = JUndefined, credentials = None\<rparr>"

text \<open>
  The store: the options objects and the headers objects by address, and the next
  address an object literal is created at.
\<close>

record heap =
  opts :: "addr \<Rightarrow> request_options"
  hdrs :: "addr \<Rightarrow> (string \<times> jsval) list"
  nxt :: addr

definition new_options :: "heap \<Rightarrow> request_options \<Rightarrow> heap \<times> addr" where
  "new_options h v = (h\<lparr>opts := (opts h)(nxt h := v), nxt := Suc (nxt h)\<rparr>, nxt h)"

definition new_headers :: "heap \<Rightarrow> (string \<times> jsval) list \<Rightarrow> heap \<times> addr" where
  "new_headers h v = (h\<lparr>hdrs := (hdrs h)(nxt h := v), nxt := Suc (nxt h)\<rparr>, nxt h)"

definition update_options :: "heap \<Rightarrow> addr \<Rightarrow> (request_options \<Rightarrow> request_options) \<Rightarrow> heap" where
  "update_options h a f = h\<lparr>opts := (opts h)(a := f (opts h a))\<rparr>"

definition update_headers ::
  "heap \<Rightarrow> addr \<Rightarrow> ((string \<times> jsval) list \<Rightarrow> (string \<times> jsval) list) \<Rightarrow> heap" where
  "update_headers h a f = h\<lparr>hdrs := (hdrs h)(a := f (hdrs h a))\<rparr>"

subsection \<open>The transport\<close>

text \<open>
  What the service does with its \<^verbatim>\<open>XMLHttpRequest\<close>: the arguments of \<^verbatim>\<open>open\<close>, the
  \<^verbatim>\<open>setRequestHeader\<close> calls in order, and the argument of \<^verbatim>\<open>send\<close>.
\<close>

record xhr_request =
  req_method :: http_verb
  req_url :: string
  req_user :: "credential option"
  req_headers :: "(string \<times> jsval) list"
  req_body :: jsval

text \<open>
  What the transport answers: the state of the request object when \<^verbatim>\<open>onload\<close> fires
  (\<open>response\<close> is \<open>None\<close> where the object has no \<^verbatim>\<open>response\<close> property), or one of the
  other three events.
\<close>

record xhr_response =
  status :: nat
  responseText :: string
  response :: "jsval option"

datatype xhr_event =
    Load xhr_response
  | NetError jsval
  | Abort
  | Timeout

text \<open>The four event listeners of \<^verbatim>\<open>fetch\<close>.\<close>

fun xhr_listeners :: "xhr_event \<Rightarrow> rejection + jsval" where
  "xhr_listeners (Load x) =
     (if status x \<ge> 400 \<or> status x = 0 then Inl (Error (responseText x))
      else Inr (case response x of Some r \<Rightarrow> r | None \<Rightarrow> JStr (responseText x)))"
| "xhr_listeners (NetError e) = Inl (Reason e)"
| "xhr_listeners Abort = Inl (TypeError ''Network request aborted'')"
| "xhr_listeners Timeout = Inl (TypeError ''Network request timed out'')"

subsection \<open>fetch\<close>

text \<open>\<^verbatim>\<open>s.indexOf(c)\<close>: the position of the first occurrence, or \<open>-1\<close>.\<close>

fun indexOf_from :: "string \<Rightarrow> char \<Rightarrow> int \<Rightarrow> int" where
  "indexOf_from [] c i = - 1"
| "indexOf_from (x # xs) c i = (if x = c then i else indexOf_from xs c (i + 1))"

definition indexOf :: "string \<Rightarrow> char \<Rightarrow> int" where
  "indexOf s c = indexOf_from s c 0"

text \<open>
  The loop over the properties of the body \<open>b\<close>, on the pair of its two variables
  \<^verbatim>\<open>separator\<close> and \<^verbatim>\<open>uri\<close>. Each round calls \<^verbatim>\<open>options.body.hasOwnProperty(key)\<close>, a method
  looked up on the body: an own property of that name is found first and is not a
  function, so the call throws; otherwise the inherited method answers true for the own
  properties. The conversion of the value can throw as well.
\<close>

fun query_loop ::
  "jsval \<Rightarrow> (string \<times> jsval) list \<Rightarrow> string \<times> string \<Rightarrow> rejection + (string \<times> string)" where
  "query_loop b [] (separator, uri) = Inr (separator, uri)"
| "query_loop b ((key, v) # ps) (separator, uri) =
     (case map_of (own_props b) ''hasOwnProperty'' of
        Some f \<Rightarrow> Inl (NotAFunction ''hasOwnProperty'')
      | None \<Rightarrow>
          (case ToString v of
             Inl e \<Rightarrow> Inl e
           | Inr s \<Rightarrow> query_loop b ps (''&'', uri @ separator @ key @ ''='' @ s)))"

text \<open>
  The loop over the headers object \<open>hs\<close>: each round calls \<^verbatim>\<open>headers.hasOwnProperty(key)\<close>,
  which throws in the same way, and then \<^verbatim>\<open>setRequestHeader\<close>.
\<close>

fun set_headers ::
  "(string \<times> jsval) list \<Rightarrow> (string \<times> jsval) list \<Rightarrow> xhr_request \<Rightarrow> rejection + xhr_request" where
  "set_headers hs [] x = Inr x"
| "set_headers hs ((key, v) # ps) x =
     (case map_of hs ''hasOwnProperty'' of
        Some f \<Rightarrow> Inl (NotAFunction ''hasOwnProperty'')
      | None \<Rightarrow> set_headers hs ps (x\<lparr>req_headers := req_headers x @ [(key, v)]\<rparr>))"

text \<open>
  The outcome of a call: the store afterwards, the request that was sent (\<open>None\<close> when
  the call settled before it reached \<^verbatim>\<open>send\<close>), and how the promise settles. An exception
  thrown in the executor of the promise rejects the promise with it.
\<close>

record fetch_result =
  heap_after :: heap
  sent :: "xhr_request option"
  settled :: "rejection + jsval"

definition non_object_body :: string where
  "non_object_body = ''Non object like body not allowed for GET requests. The body has to be an object so the properties will be appended as a GET parameter to the url.''"

text \<open>
  The second half of \<^verbatim>\<open>fetch\<close>, from the check of \<^verbatim>\<open>HEAD\<close> on: \<open>hs\<close> is the variable
  \<^verbatim>\<open>headers\<close>, read from the options when the call began.
\<close>

definition fetch_send ::
  "heap \<Rightarrow> (xhr_request \<Rightarrow> xhr_event) \<Rightarrow> string \<Rightarrow> addr \<Rightarrow> addr option \<Rightarrow> fetch_result" where
  "fetch_send h transport url a hs =
     (let options = opts h a in
      if http_method options = Some HEAD \<and> truthy (body options)
      then \<lparr>heap_after = h, sent = None,
            settled = Inl (TypeError ''Body not allowed for HEAD requests'')\<rparr>
      else
        let opened = \<lparr>req_method = (case http_method options of Some m \<Rightarrow> m | None \<Rightarrow> GET),
                      req_url = url,
                      req_user = (case credentials options of
                                    Some c \<Rightarrow> if username c \<noteq> [] then Some c else None
                                  | None \<Rightarrow> None),
                      req_headers = [],
                      req_body = JNull\<rparr>;
            with_headers = (case hs of Some ha \<Rightarrow> set_headers (hdrs h ha) (hdrs h ha) opened
                                     | None \<Rightarrow> Inr opened)
        in case with_headers of
             Inl e \<Rightarrow> \<lparr>heap_after = h, sent = None, settled = Inl e\<rparr>
           | Inr x \<Rightarrow>
               let request = x\<lparr>req_body :=
                     (if typeof (body options) = ''undefined'' then JNull else body options)\<rparr>
               in \<lparr>heap_after = h, sent = Some request,
                   settled = xhr_listeners (transport request)\<rparr>)"

definition fetch ::
  "heap \<Rightarrow> (xhr_request \<Rightarrow> xhr_event) \<Rightarrow> string \<Rightarrow> addr option \<Rightarrow> fetch_result" where
  "fetch h0 transport url options0 =
     (let (h, a) = (case options0 of Some a \<Rightarrow> (h0, a) | None \<Rightarrow> new_options h0 empty_options);
          options = opts h a;
          hs = headers options
      in
      if (http_method options = Some GET \<or> http_method options = Some DELETE) \<and> truthy (body options)
      then
        if typeof (body options) = ''object''
        then
          case query_loop (body options) (own_props (body options)) ([], []) of
            Inl e \<Rightarrow> \<lparr>heap_after = h, sent = None, settled = Inl e\<rparr>
          | Inr (separator, uri) \<Rightarrow>
              fetch_send h transport
                (url @ (if indexOf url (CHR ''?'') = - 1 then ''?'' else ''&'') @ uri) a hs
        else \<lparr>heap_after = h, sent = None, settled = Inl (TypeError non_object_body)\<rparr>
      else if typeof (body options) \<noteq> ''string''
      then fetch_send (update_options h a (\<lambda>r. r\<lparr>body := JSON_stringify (body r)\<rparr>))
             transport url a hs
      else fetch_send h transport url a hs)"

subsection \<open>fetchJSON\<close>

text \<open>
  \<^verbatim>\<open>JSON.parse\<close> is a parameter: it takes the resolved value to the parsed value, or to
  the error it throws.
\<close>

definition fetchJSON ::
  "heap \<Rightarrow> (xhr_request \<Rightarrow> xhr_event) \<Rightarrow> (jsval \<Rightarrow> rejection + jsval) \<Rightarrow> string \<Rightarrow> addr option
     \<Rightarrow> fetch_result" where
  "fetchJSON h0 transport parse url options0 =
     (let (h1, a) = (case options0 of Some a \<Rightarrow> (h0, a) | None \<Rightarrow> new_options h0 empty_options);
          (h2, ha) = (case headers (opts h1 a) of
                        Some ha \<Rightarrow> (h1, ha)
                      | None \<Rightarrow>
                          let (h, ha) = new_headers h1 []
                          in (update_options h a (\<lambda>r. r\<lparr>headers := Some ha\<rparr>), ha));
          h3 = (if \<not> truthy (get_prop (hdrs h2 ha) ''Content-Type'')
                then update_headers h2 ha (\<lambda>ps. set_prop ps ''Content-Type'' (JStr ''application/json''))
                else h2);
          r = fetch h3 transport url (Some a)
      in r\<lparr>settled := (case settled r of Inl e \<Rightarrow> Inl e | Inr v \<Rightarrow> parse v)\<rparr>)"

subsection \<open>fetchJSONP\<close>

record jsonp_options =
  timeout :: "int option"
  callback :: "string option"
  callbackFunction :: "string option"

text \<open>
  The part of the browser that \<^verbatim>\<open>fetchJSONP\<close> touches. A global property is absent,
  \<^verbatim>\<open>undefined\<close>, the callback the call registered, or something else. The document is its
  element ids in tree order: the elements before the children of \<^verbatim>\<open>head\<close>, these children
  (id and \<^verbatim>\<open>src\<close>), and the elements after them. \<open>nodelete\<close> holds for the global names on
  which the \<^verbatim>\<open>delete\<close> operator throws.
\<close>

datatype wval = WUndefined | WCallback | WOther

record element =
  el_id :: string
  el_src :: string

datatype dom_exception = NullNode | NotFoundError

datatype cleanup = ClearTimeout nat | RemoveScript string | ClearFunction string

record browser =
  window :: "string \<Rightarrow> wval option"
  nodelete :: "string \<Rightarrow> bool"
  before_head :: "string list"
  head_children :: "element list"
  after_head :: "string list"
  pending :: "nat list"
  delay :: "nat \<Rightarrow> int"
  timer_seq :: nat
  promise :: "(rejection + jsval) option"
  cleanups :: "cleanup list"
  uncaught :: "dom_exception list"

text \<open>A promise settles once: \<^verbatim>\<open>resolve\<close> and \<^verbatim>\<open>reject\<close> on a settled promise do nothing.\<close>

definition settle :: "rejection + jsval \<Rightarrow> browser \<Rightarrow> browser" where
  "settle r s = (case promise s of None \<Rightarrow> s\<lparr>promise := Some r\<rparr> | Some _ \<Rightarrow> s)"

text \<open>
  \<^verbatim>\<open>setTimeout\<close> hands out a positive handle and records the delay of the new pending
  timer; \<^verbatim>\<open>clearTimeout\<close> takes a handle off the pending timers.
\<close>

definition setTimeout :: "int \<Rightarrow> browser \<Rightarrow> browser \<times> nat" where
  "setTimeout ms s =
     (let t = Suc (timer_seq s)
      in (s\<lparr>pending := pending s @ [t], delay := (delay s)(t := ms), timer_seq := t\<rparr>, t))"

definition clearTimeout :: "nat \<Rightarrow> browser \<Rightarrow> browser" where
  "clearTimeout t s = s\<lparr>pending := removeAll t (pending s), cleanups := cleanups s @ [ClearTimeout t]\<rparr>"

text \<open>
  \<^verbatim>\<open>delete window[name]\<close>: it throws on the names of \<open>nodelete\<close>. The two cleanup methods
  \<^verbatim>\<open>_clearFunction\<close> and \<^verbatim>\<open>_removeScript\<close> are \<open>clearFunction\<close> and \<open>removeScript\<close>; each
  records its call in \<open>cleanups\<close>.
\<close>

definition delete_global :: "string \<Rightarrow> browser \<Rightarrow> unit + browser" where
  "delete_global name s =
     (if nodelete s name then Inl () else Inr (s\<lparr>window := (window s)(name := None)\<rparr>))"

definition clearFunction :: "string \<Rightarrow> browser \<Rightarrow> browser" where
  "clearFunction functionName s0 =
     (let s = s0\<lparr>cleanups := cleanups s0 @ [ClearFunction functionName]\<rparr>
      in case delete_global functionName s of
           Inr s' \<Rightarrow> s'
         | Inl e \<Rightarrow> s\<lparr>window := (window s)(functionName := Some WUndefined)\<rparr>)"

text \<open>
  \<^verbatim>\<open>document.getElementById\<close> finds the first element with the id in tree order;
  \<^verbatim>\<open>removeChild\<close> of \<^verbatim>\<open>head\<close> throws on \<^verbatim>\<open>null\<close> and on a node that is not a child of \<^verbatim>\<open>head\<close>.
\<close>

datatype node = HeadChild element | OtherElement

definition getElementById :: "browser \<Rightarrow> string \<Rightarrow> node option" where
  "getElementById s i =
     (if i \<in> set (before_head s) then Some OtherElement
      else case find (\<lambda>e. el_id e = i) (head_children s) of
             Some e \<Rightarrow> Some (HeadChild e)
           | None \<Rightarrow> if i \<in> set (after_head s) then Some OtherElement else None)"

definition removeChild :: "node option \<Rightarrow> browser \<Rightarrow> dom_exception + browser" where
  "removeChild n s =
     (case n of
        None \<Rightarrow> Inl NullNode
      | Some OtherElement \<Rightarrow> Inl NotFoundError
      | Some (HeadChild e) \<Rightarrow> Inr (s\<lparr>head_children := remove1 e (head_children s)\<rparr>))"

definition removeScript :: "string \<Rightarrow> browser \<Rightarrow> dom_exception + browser" where
  "removeScript scriptId s0 =
     (let s = s0\<lparr>cleanups := cleanups s0 @ [RemoveScript scriptId]\<rparr>;
          script = getElementById s scriptId
      in removeChild script s)"

text \<open>
  What one call keeps in its closures: the callback name, the script id, the url it was
  given and the handle of its timer.
\<close>

record jsonp_call =
  callbackFnName :: string
  scriptId :: string
  orig_url :: string
  timeoutId :: "nat option"

text \<open>
  The temporary global callback and the timeout handler. An exception that leaves a
  handler ends it there and is recorded as uncaught.
\<close>

definition jsonp_callback :: "jsonp_call \<Rightarrow> jsval \<Rightarrow> browser \<Rightarrow> browser" where
  "jsonp_callback c response0 s0 =
     (let s1 = settle (Inr response0) s0;
          s2 = (case timeoutId c of
                  Some t \<Rightarrow> if t \<noteq> 0 then clearTimeout t s1 else s1
                | None \<Rightarrow> s1)
      in case removeScript (scriptId c) s2 of
           Inl e \<Rightarrow> s2\<lparr>cleanups := cleanups s2 @ [RemoveScript (scriptId c)],
                      uncaught := uncaught s2 @ [e]\<rparr>
         | Inr s3 \<Rightarrow> clearFunction (callbackFnName c) s3)"

definition jsonp_timeout :: "jsonp_call \<Rightarrow> browser \<Rightarrow> browser" where
  "jsonp_timeout c s0 =
     (let s1 = settle (Inl (Error (''JSONP request to '' @ orig_url c @ '' timed out''))) s0;
          s2 = clearFunction (callbackFnName c) s1
      in case removeScript (scriptId c) s2 of
           Inl e \<Rightarrow> s2\<lparr>cleanups := cleanups s2 @ [RemoveScript (scriptId c)],
                      uncaught := uncaught s2 @ [e]\<rparr>
         | Inr s3 \<Rightarrow> s3)"

text \<open>
  The synchronous part of \<^verbatim>\<open>fetchJSONP\<close>. \<open>now\<close> is \<^verbatim>\<open>Date.now()\<close> and \<open>rnd\<close> is
  \<^verbatim>\<open>Math.ceil(Math.random() * 100000)\<close>.
\<close>

definition jsonp_timeout_ms :: "jsonp_options option \<Rightarrow> int" where
  "jsonp_timeout_ms options =
     (case options of
        Some opt \<Rightarrow> (case timeout opt of Some t \<Rightarrow> if t \<noteq> 0 then t else 5000 | None \<Rightarrow> 5000)
      | None \<Rightarrow> 5000)"

definition jsonp_callbackFn :: "jsonp_options option \<Rightarrow> string" where
  "jsonp_callbackFn options =
     (case options of
        Some opt \<Rightarrow> (case callback opt of Some n \<Rightarrow> if n \<noteq> [] then n else ''callback''
                                         | None \<Rightarrow> ''callback'')
      | None \<Rightarrow> ''callback'')"

definition jsonp_callbackFnName :: "nat \<Rightarrow> nat \<Rightarrow> jsonp_options option \<Rightarrow> string" where
  "jsonp_callbackFnName now rnd options =
     (let generated = ''jsonp_'' @ show_nat now @ ''_'' @ show_nat rnd
      in case options of
           Some opt \<Rightarrow> (case callbackFunction opt of Some n \<Rightarrow> if n \<noteq> [] then n else generated
                                                   | None \<Rightarrow> generated)
         | None \<Rightarrow> generated)"

definition fetchJSONP ::
  "nat \<Rightarrow> nat \<Rightarrow> string \<Rightarrow> jsonp_options option \<Rightarrow> browser \<Rightarrow> jsonp_call \<times> browser" where
  "fetchJSONP now rnd url0 options s0 =
     (let timeout_ms = jsonp_timeout_ms options;
          callbackFn = jsonp_callbackFn options;
          name = jsonp_callbackFnName now rnd options;
          sid = callbackFn @ ''_'' @ name;
          s1 = s0\<lparr>promise := None, cleanups := [], uncaught := []\<rparr>;
          s2 = s1\<lparr>window := (window s1)(name := Some WCallback)\<rparr>;
          url = url0 @ (if indexOf url0 (CHR ''?'') = - 1 then ''?'' else ''&'');
          jsonpScript = \<lparr>el_id = sid, el_src = url @ callbackFn @ ''='' @ name\<rparr>;
          s3 = s2\<lparr>head_children := head_children s2 @ [jsonpScript]\<rparr>;
          (s4, t) = setTimeout timeout_ms s3
      in (\<lparr>callbackFnName = name, scriptId = sid, orig_url = url0, timeoutId = Some t\<rparr>, s4))"

text \<open>
  What can happen afterwards: a script runs \<^verbatim>\<open>name(payload)\<close> for a global name, which
  reaches the callback only while the name is bound to it, or the timer with a handle
  elapses, which reaches the handler only while that timer is pending.
\<close>

datatype jsonp_event = ScriptCalls string jsval | TimerFires nat

fun jsonp_step :: "jsonp_call \<Rightarrow> jsonp_event \<Rightarrow> browser \<Rightarrow> browser" where
  "jsonp_step c (ScriptCalls n v) s =
     (if n = callbackFnName c \<and> window s n = Some WCallback then jsonp_callback c v s else s)"
| "jsonp_step c (TimerFires t) s =
     (if timeoutId c = Some t \<and> t \<in> set (pending s)
      then jsonp_timeout c (s\<lparr>pending := removeAll t (pending s)\<rparr>) else s)"

fun jsonp_run :: "jsonp_call \<Rightarrow> jsonp_event list \<Rightarrow> browser \<Rightarrow> browser" where
  "jsonp_run c [] s = s"
| "jsonp_run c (e # es) s = jsonp_run c es (jsonp_step c e s)"

section \<open>The search service\<close>

text \<open>The service holds the field \<^verbatim>\<open>_searchURL\<close>, here \<open>searchURL\<close>, empty until it is set.\<close>

record ElasticSearchService =
  searchURL :: string

definition new_ElasticSearchService :: ElasticSearchService where
  "new_ElasticSearchService = \<lparr>searchURL = []\<rparr>"

definition set_searchUrl :: "string \<Rightarrow> ElasticSearchService \<Rightarrow> ElasticSearchService" where
  "set_searchUrl searchUrl svc = svc\<lparr>searchURL := searchUrl\<rparr>"

definition getDefaultConfig :: "string \<Rightarrow> request_options" where
  "getDefaultConfig searchTerm =
     \<lparr>http_method = Some POST,
      headers = None,
      body = JObj
        [(''query'', JObj [(''match'', JObj [(''url'', JStr searchTerm)])]),
         (''highlight'', JObj
            [(''pre_tags'', JArr [JStr ''<strong>'']),
             (''post_tags'', JArr [JStr ''</strong>'']),
             (''fields'', JObj [(''*'', JObj [])]),
             (''require_field_match'', JBool False)])],
      credentials = None\<rparr>"

definition search ::
  "ElasticSearchService \<Rightarrow> heap \<Rightarrow> (xhr_request \<Rightarrow> xhr_event) \<Rightarrow> (jsval \<Rightarrow> rejection + jsval)
     \<Rightarrow> string \<Rightarrow> addr option \<Rightarrow> fetch_result" where
  "search svc h transport parse searchTerm customConfig =
     (case customConfig of
        Some c \<Rightarrow> fetchJSON h transport parse (searchURL svc) (Some c)
      | None \<Rightarrow>
          let (h', defaultConfig) = new_options h (getDefaultConfig searchTerm)
          in fetchJSON h' transport parse (searchURL svc) (Some defaultConfig))"

section \<open>What the specification says, in its own words\<close>

text \<open>
  The query string of the specification: \<open>key=value\<close> for every own enumerable property,
  joined with \<open>&\<close>. The value is the string the conversion yields, for the values that
  have one.
\<close>

definition convertible :: "jsval \<Rightarrow> bool" where
  "convertible v = (case ToString v of Inr s \<Rightarrow> True | Inl e \<Rightarrow> False)"

definition string_value :: "jsval \<Rightarrow> string" where
  "string_value v = (case ToString v of Inr s \<Rightarrow> s | Inl e \<Rightarrow> [])"

text \<open>
  The own-property test of a loop is intact on an object that has no own property named
  \<^verbatim>\<open>hasOwnProperty\<close>.
\<close>

definition guard_intact :: "(string \<times> jsval) list \<Rightarrow> bool" where
  "guard_intact ps = (map_of ps ''hasOwnProperty'' = None)"





text \<open>The search query of the specification's data model.\<close>

definition SearchQuery :: "string \<Rightarrow> jsval" where
  "SearchQuery searchTerm =
     JObj [(''query'', JObj [(''match'', JObj [(''url'', JStr searchTerm)])]),
           (''highlight'', JObj
              [(''pre_tags'', JArr [JStr ''<strong>'']),
               (''post_tags'', JArr [JStr ''</strong>'']),
               (''fields'', JObj [(''*'', JObj [])]),
               (''require_field_match'', JBool False)])]"



text \<open>
  What the caller supplied under the key \<^verbatim>\<open>Content-Type\<close> (\<^verbatim>\<open>undefined\<close> when there are no
  options, no headers or no such key), and the caller's headers.
\<close>

definition caller_headers :: "heap \<Rightarrow> addr option \<Rightarrow> (string \<times> jsval) list" where
  "caller_headers h options0 =
     (case options0 of
        None \<Rightarrow> []
      | Some a \<Rightarrow> (case headers (opts h a) of None \<Rightarrow> [] | Some ha \<Rightarrow> hdrs h ha))"

definition supplied_content_type :: "heap \<Rightarrow> addr option \<Rightarrow> jsval" where
  "supplied_content_type h options0 = get_prop (caller_headers h options0) ''Content-Type''"

text \<open>
  The events that reach a handler of the call \<open>c\<close>: a script calling the callback by its
  name, and the timer of the call. An id is unused when no element of the document has it.
\<close>

fun fires :: "jsonp_call \<Rightarrow> jsonp_event \<Rightarrow> bool" where
  "fires c (ScriptCalls n v) = (n = callbackFnName c)"
| "fires c (TimerFires t) = (timeoutId c = Some t)"

definition id_unused :: "browser \<Rightarrow> string \<Rightarrow> bool" where
  "id_unused s i =
     (i \<notin> set (before_head s) \<and> i \<notin> set (map el_id (head_children s)) \<and> i \<notin> set (after_head s))"

text \<open>
  What a finished call leaves behind in the browser \<open>r\<close>, against the browser \<open>s0\<close> it
  started in: the children of \<^verbatim>\<open>head\<close> are those of \<open>s0\<close> again, the callback is no longer
  registered under its name, the timer is not pending and no exception went uncaught.
\<close>

definition released :: "jsonp_call \<Rightarrow> browser \<Rightarrow> browser \<Rightarrow> bool" where
  "released c s0 r =
     (head_children r = head_children s0
      \<and> window r (callbackFnName c) \<noteq> Some WCallback
      \<and> (case timeoutId c of Some t \<Rightarrow> t \<notin> set (pending r) | None \<Rightarrow> True)
      \<and> uncaught r = [])"

section \<open>Example inputs\<close>

text \<open>
  A store whose only objects are the options of one call, at address 0, and their headers,
  at address 1; and a transport that answers every request with the same event.
\<close>

definition heap0 :: heap where
  "heap0 = \<lparr>opts = (\<lambda>a. empty_options), hdrs = (\<lambda>a. []), nxt = 0\<rparr>"

definition one_call :: "request_options \<Rightarrow> (string \<times> jsval) list \<Rightarrow> heap" where
  "one_call options hs = \<lparr>opts = (opts heap0)(0 := options), hdrs = (hdrs heap0)(1 := hs), nxt = 2\<rparr>"

definition answer :: "xhr_event \<Rightarrow> xhr_request \<Rightarrow> xhr_event" where
  "answer e request = e"

definition no_parse :: "jsval \<Rightarrow> rejection + jsval" where
  "no_parse v = Inr v"

definition browser0 :: browser where
  "browser0 = \<lparr>window = (\<lambda>n. None), nodelete = (\<lambda>n. False), before_head = [],
               head_children = [], after_head = [], pending = [], delay = (\<lambda>t. 0),
               timer_seq = 0,
               promise = None, cleanups = [], uncaught = []\<rparr>"

section \<open>Proofs\<close>

subsection \<open>Values\<close>


lemma typeof_string: "(typeof v = ''string'') = (\<exists>s. v = JStr s)"
  by (cases v) simp_all


lemma show_nat_nonempty: "show_nat n \<noteq> []"
  by (subst show_nat.simps) simp

lemma show_int_nonempty: "show_int i \<noteq> []"
  by (simp add: show_int_def show_nat_nonempty)

lemma stringify_nonempty: "stringify v = Some s \<Longrightarrow> s \<noteq> []"
  by (cases v) (auto simp add: show_int_nonempty quote_string_def split: if_splits)

lemma stringify_None: "(stringify v = None) = (v = JUndefined)"
  by (cases v) simp_all



lemma get_set_prop: "get_prop (set_prop ps k v) k = v"
  by (induction ps) (auto simp add: get_prop_def)

lemma set_prop_absent: "map_of ps k = None \<Longrightarrow> set_prop ps k v = ps @ [(k, v)]"
  by (induction ps) (auto split: if_splits)

subsection \<open>The loops of fetch\<close>


lemma convertible_values:
  "convertible JUndefined" "convertible JNull" "convertible (JBool b)" "convertible (JNum n)"
  "convertible (JStr s)" "convertible (JObj ps) = (map_of ps ''toString'' = None)"
  by (simp_all add: convertible_def)

lemma string_value_values:
  "string_value (JStr s) = s" "string_value (JNum n) = show_int (sint n)"
  "string_value (JBool b) = (if b then ''true'' else ''false'')"
  "string_value JNull = ''null''" "string_value JUndefined = ''undefined''"
  "map_of ps ''toString'' = None \<Longrightarrow> string_value (JObj ps) = ''[object Object]''"
  by (simp_all add: string_value_def)




lemma query_loop_guard:
  "map_of (own_props b) ''hasOwnProperty'' = Some f \<Longrightarrow> ps \<noteq> [] \<Longrightarrow>
   query_loop b ps (separator, uri) = Inl (NotAFunction ''hasOwnProperty'')"
  by (cases ps) auto

lemma set_headers_intact:
  "guard_intact hs \<Longrightarrow> set_headers hs ps x = Inr (x\<lparr>req_headers := req_headers x @ ps\<rparr>)"
  by (induction ps arbitrary: x) (auto simp add: guard_intact_def)

lemma set_headers_guard:
  "map_of hs ''hasOwnProperty'' = Some f \<Longrightarrow> ps \<noteq> [] \<Longrightarrow>
   set_headers hs ps x = Inl (NotAFunction ''hasOwnProperty'')"
  by (cases ps) auto

lemma set_headers_result:
  assumes r: "set_headers hs ps x = Inr y"
  shows "y = x\<lparr>req_headers := req_headers x @ ps\<rparr>"
proof (cases "map_of hs ''hasOwnProperty''")
  case None
  then have "guard_intact hs" by (simp add: guard_intact_def)
  from set_headers_intact [OF this, of ps x] r show ?thesis by simp
next
  case (Some f)
  show ?thesis
  proof (cases "ps = []")
    case True
    with r show ?thesis by simp
  next
    case False
    from set_headers_guard [OF Some False, of x] r show ?thesis by simp
  qed
qed

lemma indexOf_from_none: "0 \<le> i \<Longrightarrow> (indexOf_from s c i = - 1) = (c \<notin> set s)"
  by (induction s arbitrary: i) auto

lemma indexOf_none: "(indexOf s c = - 1) = (c \<notin> set s)"
  by (simp add: indexOf_def indexOf_from_none)

subsection \<open>fetch\<close>



lemma fetch_send_throws:
  "\<not> (http_method (opts h a) = Some HEAD \<and> truthy (body (opts h a))) \<Longrightarrow>
   map_of (hdrs h ha) ''hasOwnProperty'' = Some f \<Longrightarrow>
   fetch_send h transport url a (Some ha) =
     \<lparr>heap_after = h, sent = None, settled = Inl (NotAFunction ''hasOwnProperty'')\<rparr>"
proof -
  assume f: "map_of (hdrs h ha) ''hasOwnProperty'' = Some f"
    and n: "\<not> (http_method (opts h a) = Some HEAD \<and> truthy (body (opts h a)))"
  from f have "hdrs h ha \<noteq> []" by auto
  from set_headers_guard [OF f this] n show ?thesis
    by (auto simp add: fetch_send_def Let_def)
qed

lemma fetch_send_settled:
  "sent (fetch_send h transport url a hs) = Some req \<Longrightarrow>
   settled (fetch_send h transport url a hs) = xhr_listeners (transport req)"
  by (cases "http_method (opts h a) = Some HEAD \<and> truthy (body (opts h a))")
     (auto simp add: fetch_send_def Let_def split: sum.splits)

lemma fetch_send_headers:
  "sent (fetch_send h transport url a hs) = Some req \<Longrightarrow>
   req_headers req = (case hs of Some ha \<Rightarrow> hdrs h ha | None \<Rightarrow> [])"
  by (cases "http_method (opts h a) = Some HEAD \<and> truthy (body (opts h a))")
     (auto simp add: fetch_send_def Let_def split: option.splits sum.splits
        dest!: set_headers_result)

lemma fetch_send_heap: "heap_after (fetch_send h transport url a hs) = h"
  by (simp add: fetch_send_def Let_def split: sum.splits)

lemma fetch_Some:
  "fetch h transport url (Some a) =
     (if (http_method (opts h a) = Some GET \<or> http_method (opts h a) = Some DELETE) \<and> truthy (body (opts h a))
      then
        if typeof (body (opts h a)) = ''object''
        then
          case query_loop (body (opts h a)) (own_props (body (opts h a))) ([], []) of
            Inl e \<Rightarrow> \<lparr>heap_after = h, sent = None, settled = Inl e\<rparr>
          | Inr r \<Rightarrow>
              fetch_send h transport
                (url @ (if CHR ''?'' \<in> set url then ''&'' else ''?'') @ snd r) a (headers (opts h a))
        else \<lparr>heap_after = h, sent = None, settled = Inl (TypeError non_object_body)\<rparr>
      else if typeof (body (opts h a)) \<noteq> ''string''
      then fetch_send (update_options h a (\<lambda>r. r\<lparr>body := JSON_stringify (body r)\<rparr>))
             transport url a (headers (opts h a))
      else fetch_send h transport url a (headers (opts h a)))"
  by (simp add: fetch_def Let_def indexOf_none split: sum.splits prod.splits)

lemma fetch_None:
  "fetch h transport url None = fetch (fst (new_options h empty_options)) transport url (Some (nxt h))"
  by (simp add: fetch_def new_options_def)

lemma fetch_settled:
  "sent (fetch h transport url options) = Some req \<Longrightarrow>
   settled (fetch h transport url options) = xhr_listeners (transport req)"
proof (cases options)
  case None
  assume "sent (fetch h transport url options) = Some req"
  then show ?thesis
    unfolding None fetch_None fetch_Some
    by (auto simp add: fetch_send_settled split: if_splits sum.splits)
next
  case (Some a)
  assume "sent (fetch h transport url options) = Some req"
  then show ?thesis
    unfolding Some fetch_Some
    by (auto simp add: fetch_send_settled split: if_splits sum.splits)
qed

lemma hdrs_update_options: "hdrs (update_options h a f) = hdrs h"
  by (simp add: update_options_def)

lemma fetch_headers:
  "sent (fetch h transport url (Some a)) = Some req \<Longrightarrow>
   req_headers req = (case headers (opts h a) of Some ha \<Rightarrow> hdrs h ha | None \<Rightarrow> [])"
  unfolding fetch_Some
  by (auto simp add: hdrs_update_options dest!: fetch_send_headers
      split: if_splits option.splits sum.splits)

lemma fetch_hdrs: "hdrs (heap_after (fetch h transport url (Some a))) = hdrs h"
  unfolding fetch_Some by (simp add: fetch_send_heap hdrs_update_options split: sum.splits)

section \<open>The claims about fetch\<close>




text \<open>
  C2, as the code has it. For a method in \<open>{GET, DELETE}\<close> and a body that is truthy and not
  an object (a non-empty string, a non-zero number, \<open>true\<close>), \<open>fetch\<close> rejects with the
  type error, the options are left as they were and no request is opened or sent.
\<close>

theorem fetch_rejects_non_object_body:
  assumes "http_method (opts h a) = Some GET \<or> http_method (opts h a) = Some DELETE"
    and "truthy (body (opts h a))"
    and "typeof (body (opts h a)) \<noteq> ''object''"
  shows "fetch h transport url (Some a) =
           \<lparr>heap_after = h, sent = None, settled = Inl (TypeError non_object_body)\<rparr>"
  using assms by (auto simp add: fetch_Some)

theorem fetch_rejects_non_object_body_example:
  "fetch (one_call \<lparr>http_method = Some GET, headers = None, body = JStr ''q=x'', credentials = None\<rparr> [])
         (answer Abort) ''https://e/search'' (Some 0) =
     \<lparr>heap_after = one_call \<lparr>http_method = Some GET, headers = None, body = JStr ''q=x'',
                               credentials = None\<rparr> [],
      sent = None, settled = Inl (TypeError non_object_body)\<rparr>"
  using fetch_rejects_non_object_body [of "one_call \<lparr>http_method = Some GET, headers = None,
          body = JStr ''q=x'', credentials = None\<rparr> []" 0 "answer Abort" "''https://e/search''"]
  by (simp add: one_call_def heap0_def)

text \<open>
  C2 as stated fails: with the method \<open>GET\<close> and the body \<open>0\<close>, a number, the call is not
  rejected; the body is serialised and the request is sent.
\<close>

theorem fetch_number_body_sent:
  "sent (fetch (one_call \<lparr>http_method = Some GET, headers = None, body = JNum 0, credentials = None\<rparr> [])
           (answer Abort) ''https://e/search'' (Some 0)) =
     Some \<lparr>req_method = GET, req_url = ''https://e/search'', req_user = None, req_headers = [],
           req_body = JStr ''0''\<rparr>"
  by (simp add: fetch_def fetch_send_def Let_def one_call_def heap0_def update_options_def
      JSON_stringify_def show_int_def show_nat.simps digit_char_def)




text \<open>
  C5. When a request was sent and the transport completes the exchange, \<open>fetch\<close> rejects
  with an error whose message is the response text exactly when the status is at least
  400 or is 0, and otherwise resolves with the response body.
\<close>

theorem fetch_outcome_of_status:
  assumes s: "sent (fetch h transport url options) = Some req"
    and l: "transport req = Load x"
  shows "(if 400 \<le> status x \<or> status x = 0
          then settled (fetch h transport url options) = Inl (Error (responseText x))
          else settled (fetch h transport url options) =
                 Inr (case response x of Some r \<Rightarrow> r | None \<Rightarrow> JStr (responseText x)))
       \<and> ((\<exists>e. settled (fetch h transport url options) = Inl e) = (400 \<le> status x \<or> status x = 0))"
  using fetch_settled [OF s] l by simp

theorem fetch_outcome_of_status_example:
  "sent (fetch (one_call empty_options [])
          (answer (Load \<lparr>status = 500, responseText = ''Internal Error'',
                         response = Some (JStr ''Internal Error'')\<rparr>)) ''https://e/search'' (Some 0))
     = Some \<lparr>req_method = GET, req_url = ''https://e/search'', req_user = None, req_headers = [],
             req_body = JNull\<rparr>
   \<and> settled (fetch (one_call empty_options [])
          (answer (Load \<lparr>status = 500, responseText = ''Internal Error'',
                         response = Some (JStr ''Internal Error'')\<rparr>)) ''https://e/search'' (Some 0))
     = Inl (Error ''Internal Error'')"
proof -
  let ?t = "answer (Load \<lparr>status = 500, responseText = ''Internal Error'',
                         response = Some (JStr ''Internal Error'')\<rparr>)"
  let ?req = "\<lparr>req_method = GET, req_url = ''https://e/search'', req_user = None,
               req_headers = [], req_body = JNull\<rparr>"
  have s: "sent (fetch (one_call empty_options []) ?t ''https://e/search'' (Some 0)) = Some ?req"
    by (simp add: fetch_def fetch_send_def Let_def one_call_def heap0_def empty_options_def
        update_options_def JSON_stringify_def)
  have l: "?t ?req = Load \<lparr>status = 500, responseText = ''Internal Error'',
                         response = Some (JStr ''Internal Error'')\<rparr>"
    by (simp add: answer_def)
  from fetch_outcome_of_status [OF s l] s show ?thesis by simp
qed

text \<open>
  C10. \<open>fetch\<close> and \<open>fetchJSON\<close> write to the caller's objects. For a method other than
  \<open>GET\<close> and \<open>DELETE\<close> and a body that is not a string, the body of the caller's options is
  its JSON serialisation after the call (a string, when a body was present); and
  \<open>fetchJSON\<close> appends the key \<open>Content-Type\<close> to the caller's headers when that exact
  key is absent.
\<close>

theorem fetch_mutates_options:
  "(http_method (opts h a) \<noteq> Some GET \<and> http_method (opts h a) \<noteq> Some DELETE
       \<and> typeof (body (opts h a)) \<noteq> ''string''
     \<longrightarrow> body (opts (heap_after (fetch h transport url (Some a))) a) = JSON_stringify (body (opts h a))
       \<and> body (opts (heap_after (fetchJSON h transport parse url (Some a))) a)
           = JSON_stringify (body (opts h a))
       \<and> (body (opts h a) \<noteq> JUndefined \<longrightarrow> (\<exists>s. JSON_stringify (body (opts h a)) = JStr s)))
   \<and> (headers (opts h a) = Some ha \<and> map_of (hdrs h ha) ''Content-Type'' = None
     \<longrightarrow> hdrs (heap_after (fetchJSON h transport parse url (Some a))) ha
           = hdrs h ha @ [(''Content-Type'', JStr ''application/json'')])"
proof (intro conjI impI)
  assume a: "http_method (opts h a) \<noteq> Some GET \<and> http_method (opts h a) \<noteq> Some DELETE
       \<and> typeof (body (opts h a)) \<noteq> ''string''"
  then show "body (opts (heap_after (fetch h transport url (Some a))) a) = JSON_stringify (body (opts h a))"
    by (simp add: fetch_Some fetch_send_heap update_options_def)
  show "body (opts (heap_after (fetchJSON h transport parse url (Some a))) a)
           = JSON_stringify (body (opts h a))"
    using a
    by (cases "headers (opts h a)")
       (simp_all add: fetchJSON_def Let_def new_headers_def update_options_def update_headers_def
          fetch_Some fetch_send_heap)
next
  assume "body (opts h a) \<noteq> JUndefined"
  then show "\<exists>s. JSON_stringify (body (opts h a)) = JStr s"
    by (cases "stringify (body (opts h a))") (simp_all add: JSON_stringify_def stringify_None)
next
  assume a: "headers (opts h a) = Some ha \<and> map_of (hdrs h ha) ''Content-Type'' = None"
  then have g: "get_prop (hdrs h ha) ''Content-Type'' = JUndefined"
    by (simp add: get_prop_def)
  from a g show "hdrs (heap_after (fetchJSON h transport parse url (Some a))) ha
           = hdrs h ha @ [(''Content-Type'', JStr ''application/json'')]"
    by (simp add: fetchJSON_def Let_def fetch_hdrs update_headers_def set_prop_absent)
qed

theorem fetch_mutates_options_example:
  "body (opts (heap_after (fetch (one_call \<lparr>http_method = Some POST, headers = Some 1,
                                           body = JObj [(''q'', JStr ''x'')], credentials = None\<rparr>
                                          [(''Accept'', JStr ''*/*'')])
                            (answer Abort) ''https://e/search'' (Some 0))) 0)
     = JStr (''{'' @ quote_string ''q'' @ '':'' @ quote_string ''x'' @ ''}'')
   \<and> hdrs (heap_after (fetchJSON (one_call \<lparr>http_method = Some POST, headers = Some 1,
                                           body = JObj [(''q'', JStr ''x'')], credentials = None\<rparr>
                                          [(''Accept'', JStr ''*/*'')])
                            (answer Abort) no_parse ''https://e/search'' (Some 0))) 1
     = [(''Accept'', JStr ''*/*''), (''Content-Type'', JStr ''application/json'')]"
  using fetch_mutates_options [of "one_call \<lparr>http_method = Some POST, headers = Some 1,
                                           body = JObj [(''q'', JStr ''x'')], credentials = None\<rparr>
                                          [(''Accept'', JStr ''*/*'')]" 0 "answer Abort"
                                  "''https://e/search''" no_parse 1]
  by (simp add: one_call_def heap0_def JSON_stringify_def)

subsection \<open>fetchJSON\<close>

lemma fetchJSON_None:
  "fetchJSON h transport parse url None =
     fetchJSON (fst (new_options h empty_options)) transport parse url (Some (nxt h))"
  by (simp add: fetchJSON_def new_options_def)

lemma caller_headers_None:
  "caller_headers (fst (new_options h empty_options)) (Some (nxt h)) = caller_headers h None"
  by (simp add: caller_headers_def new_options_def empty_options_def)

lemma fetchJSON_Some_headers:
  assumes s: "sent (fetchJSON h transport parse url (Some a)) = Some req"
  shows "req_headers req =
           (if truthy (supplied_content_type h (Some a)) then caller_headers h (Some a)
            else set_prop (caller_headers h (Some a)) ''Content-Type'' (JStr ''application/json''))"
proof (cases "headers (opts h a)")
  case None
  let ?h3 = "update_headers (update_options (fst (new_headers h [])) a (\<lambda>r. r\<lparr>headers := Some (nxt h)\<rparr>))
               (nxt h) (\<lambda>ps. set_prop ps ''Content-Type'' (JStr ''application/json''))"
  from s None have "sent (fetch ?h3 transport url (Some a)) = Some req"
    by (simp add: fetchJSON_def Let_def new_headers_def update_options_def get_prop_def)
  from fetch_headers [OF this] None show ?thesis
    by (simp add: supplied_content_type_def caller_headers_def get_prop_def
        new_headers_def update_options_def update_headers_def)
next
  case (Some ha)
  show ?thesis
  proof (cases "truthy (get_prop (hdrs h ha) ''Content-Type'')")
    case True
    with s Some have "sent (fetch h transport url (Some a)) = Some req"
      by (simp add: fetchJSON_def Let_def)
    from fetch_headers [OF this] Some True show ?thesis
      by (simp add: supplied_content_type_def caller_headers_def)
  next
    case False
    let ?h3 = "update_headers h ha (\<lambda>ps. set_prop ps ''Content-Type'' (JStr ''application/json''))"
    from s Some False have "sent (fetch ?h3 transport url (Some a)) = Some req"
      by (simp add: fetchJSON_def Let_def)
    from fetch_headers [OF this] Some False show ?thesis
      by (simp add: supplied_content_type_def caller_headers_def update_headers_def)
  qed
qed

text \<open>
  C4, as the code has it. The request that \<open>fetchJSON\<close> sends carries the caller's headers
  unchanged when the caller supplied a truthy value under exactly the key \<open>Content-Type\<close>;
  otherwise it carries the caller's headers with \<open>Content-Type\<close> set to
  \<open>application/json\<close>. In both cases the value under \<open>Content-Type\<close> is the caller's truthy
  value or else \<open>application/json\<close>.
\<close>

theorem fetchJSON_content_type:
  assumes s: "sent (fetchJSON h transport parse url options) = Some req"
  shows "req_headers req =
           (if truthy (supplied_content_type h options) then caller_headers h options
            else set_prop (caller_headers h options) ''Content-Type'' (JStr ''application/json''))
       \<and> get_prop (req_headers req) ''Content-Type'' =
           (if truthy (supplied_content_type h options) then supplied_content_type h options
            else JStr ''application/json'')"
proof -
  have hs: "req_headers req =
           (if truthy (supplied_content_type h options) then caller_headers h options
            else set_prop (caller_headers h options) ''Content-Type'' (JStr ''application/json''))"
  proof (cases options)
    case None
    from s have "sent (fetchJSON (fst (new_options h empty_options)) transport parse url (Some (nxt h)))
                   = Some req"
      unfolding None fetchJSON_None .
    from fetchJSON_Some_headers [OF this] show ?thesis
      unfolding None supplied_content_type_def caller_headers_None .
  next
    case (Some a)
    with s fetchJSON_Some_headers show ?thesis by simp
  qed
  then show ?thesis
    by (simp add: get_set_prop supplied_content_type_def)
qed

theorem fetchJSON_content_type_example:
  "sent (fetchJSON (one_call \<lparr>http_method = Some POST, headers = Some 1, body = JStr ''{}'',
                              credentials = None\<rparr> [(''Content-Type'', JStr ''text/plain'')])
           (answer Abort) no_parse ''https://e/search'' (Some 0)) =
     Some \<lparr>req_method = POST, req_url = ''https://e/search'', req_user = None,
           req_headers = [(''Content-Type'', JStr ''text/plain'')], req_body = JStr ''{}''\<rparr>
   \<and> get_prop [(''Content-Type'', JStr ''text/plain'')] ''Content-Type'' = JStr ''text/plain''"
proof -
  let ?h = "one_call \<lparr>http_method = Some POST, headers = Some 1, body = JStr ''{}'',
                              credentials = None\<rparr> [(''Content-Type'', JStr ''text/plain'')]"
  let ?req = "\<lparr>req_method = POST, req_url = ''https://e/search'', req_user = None,
           req_headers = [(''Content-Type'', JStr ''text/plain'')], req_body = JStr ''{}''\<rparr>"
  have s: "sent (fetchJSON ?h (answer Abort) no_parse ''https://e/search'' (Some 0)) = Some ?req"
    by (simp add: fetchJSON_def fetch_def fetch_send_def Let_def one_call_def heap0_def get_prop_def)
  from fetchJSON_content_type [OF s] s show ?thesis
    by (simp add: supplied_content_type_def caller_headers_def one_call_def heap0_def get_prop_def)
qed

text \<open>
  C4 as stated fails. A caller who supplies \<open>Content-Type\<close> with the empty string has it
  overwritten; a caller who supplies \<open>content-type\<close> in lower case has
  \<open>Content-Type: application/json\<close> set beside it.
\<close>

theorem fetchJSON_content_type_overwritten:
  "sent (fetchJSON (one_call \<lparr>http_method = Some POST, headers = Some 1, body = JStr ''{}'',
                              credentials = None\<rparr> [(''Content-Type'', JStr [])])
           (answer Abort) no_parse ''https://e/search'' (Some 0)) =
     Some \<lparr>req_method = POST, req_url = ''https://e/search'', req_user = None,
           req_headers = [(''Content-Type'', JStr ''application/json'')], req_body = JStr ''{}''\<rparr>
   \<and> sent (fetchJSON (one_call \<lparr>http_method = Some POST, headers = Some 1, body = JStr ''{}'',
                              credentials = None\<rparr> [(''content-type'', JStr ''text/plain'')])
           (answer Abort) no_parse ''https://e/search'' (Some 0)) =
     Some \<lparr>req_method = POST, req_url = ''https://e/search'', req_user = None,
           req_headers = [(''content-type'', JStr ''text/plain''),
                          (''Content-Type'', JStr ''application/json'')],
           req_body = JStr ''{}''\<rparr>"
  by (simp add: fetchJSON_def fetch_def fetch_send_def Let_def one_call_def heap0_def get_prop_def
      update_headers_def)

section \<open>The claims about the search service\<close>

lemma stringify_SearchQuery:
  "stringify (SearchQuery searchTerm) =
     Some (''{'' @ quote_string ''query'' @ '':{'' @ quote_string ''match'' @ '':{''
           @ quote_string ''url'' @ '':'' @ quote_string searchTerm @ ''}},''
           @ quote_string ''highlight'' @ '':{''
           @ quote_string ''pre_tags'' @ '':['' @ quote_string ''<strong>'' @ ''],''
           @ quote_string ''post_tags'' @ '':['' @ quote_string ''</strong>'' @ ''],''
           @ quote_string ''fields'' @ '':{'' @ quote_string ''*'' @ '':{}},''
           @ quote_string ''require_field_match'' @ '':false}}'')"
  by (simp add: SearchQuery_def)

text \<open>
  C8. For every term, the empty one included, the query that \<open>getDefaultConfig\<close> builds
  (the body of the options it returns, to be sent with \<open>POST\<close>) is exactly the search
  query of the specification, which is the object written out below. It serialises to
  JSON text for every term, and two terms give the same query exactly when they are the
  same term.
\<close>

theorem getDefaultConfig_query:
  "getDefaultConfig searchTerm =
     \<lparr>http_method = Some POST, headers = None, body = SearchQuery searchTerm, credentials = None\<rparr>
   \<and> body (getDefaultConfig searchTerm) =
       JObj [(''query'', JObj [(''match'', JObj [(''url'', JStr searchTerm)])]),
             (''highlight'', JObj
                [(''pre_tags'', JArr [JStr ''<strong>'']),
                 (''post_tags'', JArr [JStr ''</strong>'']),
                 (''fields'', JObj [(''*'', JObj [])]),
                 (''require_field_match'', JBool False)])]
   \<and> stringify (body (getDefaultConfig searchTerm)) =
       Some (''{'' @ quote_string ''query'' @ '':{'' @ quote_string ''match'' @ '':{''
           @ quote_string ''url'' @ '':'' @ quote_string searchTerm @ ''}},''
           @ quote_string ''highlight'' @ '':{''
           @ quote_string ''pre_tags'' @ '':['' @ quote_string ''<strong>'' @ ''],''
           @ quote_string ''post_tags'' @ '':['' @ quote_string ''</strong>'' @ ''],''
           @ quote_string ''fields'' @ '':{'' @ quote_string ''*'' @ '':{}},''
           @ quote_string ''require_field_match'' @ '':false}}'')
   \<and> (body (getDefaultConfig searchTerm) = body (getDefaultConfig searchTerm'))
       = (searchTerm = searchTerm')"
proof -
  have q: "body (getDefaultConfig t) = SearchQuery t" for t
    by (simp add: getDefaultConfig_def SearchQuery_def)
  have c: "getDefaultConfig searchTerm =
     \<lparr>http_method = Some POST, headers = None, body = SearchQuery searchTerm, credentials = None\<rparr>"
    by (simp add: getDefaultConfig_def SearchQuery_def)
  have inj: "(SearchQuery searchTerm = SearchQuery searchTerm') = (searchTerm = searchTerm')"
    by (simp add: SearchQuery_def)
  show ?thesis
    unfolding q stringify_SearchQuery inj using c by (simp add: SearchQuery_def)
qed

text \<open>
  C9. With options of the caller, \<open>search\<close> is \<open>fetchJSON\<close> on the configured url and
  these options, whatever the term; without, it sends one request: a \<open>POST\<close> to the
  configured url, with the content type \<open>application/json\<close> and the JSON text of the
  query built from the term as its body.
\<close>

theorem search_request:
  "search svc h transport parse searchTerm (Some c) = fetchJSON h transport parse (searchURL svc) (Some c)
   \<and> search svc h transport parse searchTerm (Some c) = search svc h transport parse searchTerm' (Some c)
   \<and> sent (search svc h transport parse searchTerm None) =
       Some \<lparr>req_method = POST, req_url = searchURL svc, req_user = None,
             req_headers = [(''Content-Type'', JStr ''application/json'')],
             req_body = JSON_stringify (body (getDefaultConfig searchTerm))\<rparr>
   \<and> JSON_stringify (body (getDefaultConfig searchTerm)) =
       JStr (''{'' @ quote_string ''query'' @ '':{'' @ quote_string ''match'' @ '':{''
           @ quote_string ''url'' @ '':'' @ quote_string searchTerm @ ''}},''
           @ quote_string ''highlight'' @ '':{''
           @ quote_string ''pre_tags'' @ '':['' @ quote_string ''<strong>'' @ ''],''
           @ quote_string ''post_tags'' @ '':['' @ quote_string ''</strong>'' @ ''],''
           @ quote_string ''fields'' @ '':{'' @ quote_string ''*'' @ '':{}},''
           @ quote_string ''require_field_match'' @ '':false}}'')
   \<and> searchURL (set_searchUrl u svc) = u"
proof (intro conjI)
  show "JSON_stringify (body (getDefaultConfig searchTerm)) =
       JStr (''{'' @ quote_string ''query'' @ '':{'' @ quote_string ''match'' @ '':{''
           @ quote_string ''url'' @ '':'' @ quote_string searchTerm @ ''}},''
           @ quote_string ''highlight'' @ '':{''
           @ quote_string ''pre_tags'' @ '':['' @ quote_string ''<strong>'' @ ''],''
           @ quote_string ''post_tags'' @ '':['' @ quote_string ''</strong>'' @ ''],''
           @ quote_string ''fields'' @ '':{'' @ quote_string ''*'' @ '':{}},''
           @ quote_string ''require_field_match'' @ '':false}}'')"
    using stringify_SearchQuery [of searchTerm]
    by (simp add: JSON_stringify_def getDefaultConfig_def SearchQuery_def)
next
  show "sent (search svc h transport parse searchTerm None) =
       Some \<lparr>req_method = POST, req_url = searchURL svc, req_user = None,
             req_headers = [(''Content-Type'', JStr ''application/json'')],
             req_body = JSON_stringify (body (getDefaultConfig searchTerm))\<rparr>"
    by (simp add: search_def fetchJSON_def fetch_def fetch_send_def Let_def new_options_def
        new_headers_def update_options_def update_headers_def getDefaultConfig_def get_prop_def
        JSON_stringify_def)
qed (simp_all add: search_def set_searchUrl_def)

section \<open>fetchJSONP\<close>

lemma fetchJSONP_start:
  "fetchJSONP now rnd url options s0 =
     (\<lparr>callbackFnName = jsonp_callbackFnName now rnd options,
       scriptId = jsonp_callbackFn options @ ''_'' @ jsonp_callbackFnName now rnd options,
       orig_url = url, timeoutId = Some (Suc (timer_seq s0))\<rparr>,
      s0\<lparr>window := (window s0)(jsonp_callbackFnName now rnd options := Some WCallback),
         head_children := head_children s0 @
           [\<lparr>el_id = jsonp_callbackFn options @ ''_'' @ jsonp_callbackFnName now rnd options,
             el_src = url @ (if CHR ''?'' \<in> set url then ''&'' else ''?'')
                      @ jsonp_callbackFn options @ ''='' @ jsonp_callbackFnName now rnd options\<rparr>],
         pending := pending s0 @ [Suc (timer_seq s0)],
         delay := (delay s0)(Suc (timer_seq s0) := jsonp_timeout_ms options),
         timer_seq := Suc (timer_seq s0),
         promise := None, cleanups := [], uncaught := []\<rparr>)"
  by (simp add: fetchJSONP_def setTimeout_def Let_def indexOf_none)

text \<open>A call is finished when its callback is no longer registered and its timer not pending.\<close>

lemma step_not_fires: "\<not> fires c e \<Longrightarrow> jsonp_step c e s = s"
  by (cases e) auto

lemma step_finished:
  "window s (callbackFnName c) \<noteq> Some WCallback \<Longrightarrow> timeoutId c = Some t \<Longrightarrow>
   t \<notin> set (pending s) \<Longrightarrow> jsonp_step c e s = s"
  by (cases e) auto

lemma run_finished:
  "window s (callbackFnName c) \<noteq> Some WCallback \<Longrightarrow> timeoutId c = Some t \<Longrightarrow>
   t \<notin> set (pending s) \<Longrightarrow> jsonp_run c es s = s"
  by (induction es) (simp_all add: step_finished)

lemma find_own_script:
  "i \<notin> set (map el_id xs) \<Longrightarrow> find (\<lambda>e. el_id e = i) (xs @ [\<lparr>el_id = i, el_src = u\<rparr>])
     = Some \<lparr>el_id = i, el_src = u\<rparr>"
  by (induction xs) auto

lemma remove_own_script:
  "i \<notin> set (map el_id xs) \<Longrightarrow> remove1 \<lparr>el_id = i, el_src = u\<rparr> (xs @ [\<lparr>el_id = i, el_src = u\<rparr>]) = xs"
  by (induction xs) auto

lemma removeScript_own:
  assumes "i \<notin> set (before_head s)" and "head_children s = xs @ [\<lparr>el_id = i, el_src = u\<rparr>]"
    and "i \<notin> set (map el_id xs)"
  shows "removeScript i s = Inr (s\<lparr>cleanups := cleanups s @ [RemoveScript i], head_children := xs\<rparr>)"
  using assms
  by (simp add: removeScript_def getElementById_def removeChild_def Let_def find_own_script
      remove_own_script)

lemma clearFunction_window: "window (clearFunction n s) n \<noteq> Some WCallback"
  by (simp add: clearFunction_def delete_global_def Let_def)

lemma clearFunction_fields:
  "cleanups (clearFunction n s) = cleanups s @ [ClearFunction n]"
  "head_children (clearFunction n s) = head_children s"
  "before_head (clearFunction n s) = before_head s"
  "pending (clearFunction n s) = pending s"
  "promise (clearFunction n s) = promise s"
  "uncaught (clearFunction n s) = uncaught s"
  by (simp_all add: clearFunction_def delete_global_def Let_def)

lemma callback_ready:
  assumes w: "window s (callbackFnName c) = Some WCallback"
    and t: "timeoutId c = Some t" "t \<noteq> 0"
    and p: "promise s = None" "cleanups s = []" "uncaught s = []"
    and d: "scriptId c \<notin> set (before_head s)"
           "head_children s = xs @ [\<lparr>el_id = scriptId c, el_src = u\<rparr>]"
           "scriptId c \<notin> set (map el_id xs)"
  shows "promise (jsonp_callback c v s) = Some (Inr v)"
    and "cleanups (jsonp_callback c v s) =
           [ClearTimeout t, RemoveScript (scriptId c), ClearFunction (callbackFnName c)]"
    and "head_children (jsonp_callback c v s) = xs"
    and "window (jsonp_callback c v s) (callbackFnName c) \<noteq> Some WCallback"
    and "t \<notin> set (pending (jsonp_callback c v s))"
    and "uncaught (jsonp_callback c v s) = []"
proof -
  let ?s2 = "clearTimeout t (settle (Inr v) s)"
  have rs: "removeScript (scriptId c) ?s2 =
              Inr (?s2\<lparr>cleanups := cleanups ?s2 @ [RemoveScript (scriptId c)], head_children := xs\<rparr>)"
    by (rule removeScript_own [where u = u]) (insert d p, simp_all add: clearTimeout_def settle_def)
  have cb: "jsonp_callback c v s =
              clearFunction (callbackFnName c)
                (?s2\<lparr>cleanups := cleanups ?s2 @ [RemoveScript (scriptId c)], head_children := xs\<rparr>)"
    using t by (simp add: jsonp_callback_def Let_def rs)
  show "promise (jsonp_callback c v s) = Some (Inr v)"
    unfolding cb by (simp add: clearFunction_fields clearTimeout_def settle_def p)
  show "cleanups (jsonp_callback c v s) =
           [ClearTimeout t, RemoveScript (scriptId c), ClearFunction (callbackFnName c)]"
    unfolding cb by (simp add: clearFunction_fields clearTimeout_def settle_def p)
  show "head_children (jsonp_callback c v s) = xs"
    unfolding cb by (simp add: clearFunction_fields)
  show "window (jsonp_callback c v s) (callbackFnName c) \<noteq> Some WCallback"
    unfolding cb by (rule clearFunction_window)
  show "t \<notin> set (pending (jsonp_callback c v s))"
    unfolding cb by (simp add: clearFunction_fields clearTimeout_def)
  show "uncaught (jsonp_callback c v s) = []"
    unfolding cb by (simp add: clearFunction_fields clearTimeout_def settle_def p)
qed

lemma timeout_ready:
  fixes t :: nat
  assumes p: "promise s = None" "cleanups s = []" "uncaught s = []"
    and d: "scriptId c \<notin> set (before_head s)"
           "head_children s = xs @ [\<lparr>el_id = scriptId c, el_src = u\<rparr>]"
           "scriptId c \<notin> set (map el_id xs)"
  defines "r \<equiv> jsonp_timeout c (s\<lparr>pending := removeAll t (pending s)\<rparr>)"
  shows "promise r = Some (Inl (Error (''JSONP request to '' @ orig_url c @ '' timed out'')))"
    and "cleanups r = [ClearFunction (callbackFnName c), RemoveScript (scriptId c)]"
    and "head_children r = xs"
    and "window r (callbackFnName c) \<noteq> Some WCallback"
    and "t \<notin> set (pending r)"
    and "uncaught r = []"
proof -
  let ?s2 = "clearFunction (callbackFnName c)
               (settle (Inl (Error (''JSONP request to '' @ orig_url c @ '' timed out'')))
                  (s\<lparr>pending := removeAll t (pending s)\<rparr>))"
  have rs: "removeScript (scriptId c) ?s2 =
              Inr (?s2\<lparr>cleanups := cleanups ?s2 @ [RemoveScript (scriptId c)], head_children := xs\<rparr>)"
    by (rule removeScript_own [where u = u]) (insert d p, simp_all add: clearFunction_fields settle_def)
  have r: "r = ?s2\<lparr>cleanups := cleanups ?s2 @ [RemoveScript (scriptId c)], head_children := xs\<rparr>"
    unfolding r_def jsonp_timeout_def Let_def rs by simp
  show "promise r = Some (Inl (Error (''JSONP request to '' @ orig_url c @ '' timed out'')))"
    unfolding r by (simp add: clearFunction_fields settle_def p)
  show "cleanups r = [ClearFunction (callbackFnName c), RemoveScript (scriptId c)]"
    unfolding r by (simp add: clearFunction_fields settle_def p)
  show "head_children r = xs"
    unfolding r by simp
  show "window r (callbackFnName c) \<noteq> Some WCallback"
    unfolding r by (simp add: clearFunction_window)
  show "t \<notin> set (pending r)"
    unfolding r by (simp add: clearFunction_fields settle_def p)
  show "uncaught r = []"
    unfolding r by (simp add: clearFunction_fields settle_def p)
qed

section \<open>The claims about fetchJSONP\<close>

text \<open>
  C6, as the code has it. Let a call start in a browser where its script id is unused, and
  let any events follow. Until an event reaches one of its handlers nothing changes.
  When the callback is reached first, the promise resolves with the payload and the timer
  is cancelled, the script removed and the callback deleted, each once and in this order.
  When the timer is reached first, the promise rejects with the timeout error that names
  the url the call was given, and the callback is deleted and the script removed, each
  once and in this order; the timer, which has fired, is not cancelled. In both cases
  the call is released and no later event changes anything.
\<close>

theorem fetchJSONP_cleanup:
  assumes start: "fetchJSONP now rnd url options s0 = (c, s)"
    and unused: "id_unused s0 (scriptId c)"
  shows "case find (fires c) es of
           None \<Rightarrow> jsonp_run c es s = s
         | Some (ScriptCalls n v) \<Rightarrow>
             promise (jsonp_run c es s) = Some (Inr v)
             \<and> cleanups (jsonp_run c es s) =
                 [ClearTimeout (Suc (timer_seq s0)), RemoveScript (scriptId c),
                  ClearFunction (callbackFnName c)]
             \<and> released c s0 (jsonp_run c es s)
         | Some (TimerFires t) \<Rightarrow>
             promise (jsonp_run c es s) =
                 Some (Inl (Error (''JSONP request to '' @ url @ '' timed out'')))
             \<and> cleanups (jsonp_run c es s) =
                 [ClearFunction (callbackFnName c), RemoveScript (scriptId c)]
             \<and> released c s0 (jsonp_run c es s)"
proof -
  let ?t = "Suc (timer_seq s0)"
  from start have c: "timeoutId c = Some ?t" "orig_url c = url"
    and w: "window s (callbackFnName c) = Some WCallback"
    and p: "promise s = None" "cleanups s = []" "uncaught s = []"
    and pend: "?t \<in> set (pending s)"
    and bh: "before_head s = before_head s0"
    and hc: "\<exists>u. head_children s = head_children s0 @ [\<lparr>el_id = scriptId c, el_src = u\<rparr>]"
    unfolding fetchJSONP_start by auto
  from hc obtain u where hc': "head_children s = head_children s0 @ [\<lparr>el_id = scriptId c, el_src = u\<rparr>]"
    by blast
  from unused bh have d: "scriptId c \<notin> set (before_head s)" "scriptId c \<notin> set (map el_id (head_children s0))"
    by (simp_all add: id_unused_def)
  show ?thesis
  proof (induction es)
    case Nil
    show ?case by simp
  next
    case (Cons e es)
    show ?case
    proof (cases "fires c e")
      case False
      then have same: "jsonp_run c (e # es) s = jsonp_run c es s"
        "find (fires c) (e # es) = find (fires c) es"
        by (simp_all add: step_not_fires)
      show ?thesis unfolding same by (rule Cons.IH)
    next
      case True
      show ?thesis
      proof (cases e)
        case (ScriptCalls n v)
        with True have n: "n = callbackFnName c" by simp
        let ?r = "jsonp_callback c v s"
        note r = callback_ready [OF w c(1) _ p d(1) hc' d(2), of v]
        have fin: "jsonp_run c es ?r = ?r"
          by (rule run_finished [OF _ c(1)]) (simp_all add: r)
        have run: "jsonp_run c (e # es) s = ?r"
          unfolding ScriptCalls n using w fin by simp
        have f: "find (fires c) (e # es) = Some (ScriptCalls n v)"
          using True ScriptCalls by simp
        show ?thesis
          unfolding f run by (simp add: r released_def c)
      next
        case (TimerFires t)
        with True have t: "t = ?t" using c by simp
        let ?r = "jsonp_timeout c (s\<lparr>pending := removeAll ?t (pending s)\<rparr>)"
        note r = timeout_ready [OF p d(1) hc' d(2), of ?t]
        have fin: "jsonp_run c es ?r = ?r"
          by (rule run_finished [OF _ c(1)]) (simp_all add: r)
        have run: "jsonp_run c (e # es) s = ?r"
          unfolding TimerFires t using c pend fin by simp
        have f: "find (fires c) (e # es) = Some (TimerFires t)"
          using True TimerFires by simp
        show ?thesis
          unfolding f run by (simp add: r released_def c)
      qed
    qed
  qed
qed

theorem fetchJSONP_cleanup_example:
  "id_unused browser0 ''callback_jsonp_3_2''
   \<and> promise (jsonp_run (fst (fetchJSONP 3 2 ''https://e/data'' None browser0))
                [ScriptCalls ''jsonp_3_2'' (JNum 7), TimerFires 1]
                (snd (fetchJSONP 3 2 ''https://e/data'' None browser0))) = Some (Inr (JNum 7))
   \<and> cleanups (jsonp_run (fst (fetchJSONP 3 2 ''https://e/data'' None browser0))
                [ScriptCalls ''jsonp_3_2'' (JNum 7), TimerFires 1]
                (snd (fetchJSONP 3 2 ''https://e/data'' None browser0))) =
       [ClearTimeout 1, RemoveScript ''callback_jsonp_3_2'', ClearFunction ''jsonp_3_2'']
   \<and> promise (jsonp_run (fst (fetchJSONP 3 2 ''https://e/data'' None browser0))
                [TimerFires 1, ScriptCalls ''jsonp_3_2'' (JNum 7)]
                (snd (fetchJSONP 3 2 ''https://e/data'' None browser0))) =
       Some (Inl (Error ''JSONP request to https://e/data timed out''))"
proof -
  let ?c = "fst (fetchJSONP 3 2 ''https://e/data'' None browser0)"
  let ?s = "snd (fetchJSONP 3 2 ''https://e/data'' None browser0)"
  have n: "callbackFnName ?c = ''jsonp_3_2''" "scriptId ?c = ''callback_jsonp_3_2''"
    "timeoutId ?c = Some 1"
    by (simp_all add: fetchJSONP_start jsonp_callbackFnName_def jsonp_callbackFn_def
        show_nat.simps digit_char_def browser0_def)
  have start: "fetchJSONP 3 2 ''https://e/data'' None browser0 = (?c, ?s)"
    by simp
  have unused: "id_unused browser0 (scriptId ?c)"
    unfolding n by (simp add: id_unused_def browser0_def)
  have ts: "timer_seq browser0 = 0"
    by (simp add: browser0_def)
  have f1: "find (fires ?c) [ScriptCalls ''jsonp_3_2'' (JNum 7), TimerFires 1]
              = Some (ScriptCalls ''jsonp_3_2'' (JNum 7))"
    and f2: "find (fires ?c) [TimerFires 1, ScriptCalls ''jsonp_3_2'' (JNum 7)] = Some (TimerFires 1)"
    using n by simp_all
  note a = fetchJSONP_cleanup [OF start unused, of "[ScriptCalls ''jsonp_3_2'' (JNum 7), TimerFires 1]",
      unfolded f1 option.case jsonp_event.case n ts]
  note b = fetchJSONP_cleanup [OF start unused, of "[TimerFires 1, ScriptCalls ''jsonp_3_2'' (JNum 7)]",
      unfolded f2 option.case jsonp_event.case n ts]
  from a b unused [unfolded n] show ?thesis
    by simp
qed

text \<open>
  C6 as stated fails on the timeout path: when the timer fires first, the callback is
  deleted and the script removed, and no timer is cancelled.
\<close>

theorem fetchJSONP_timeout_cleanups:
  "cleanups (jsonp_run (fst (fetchJSONP 3 2 ''https://e/data'' None browser0))
                [TimerFires 1, ScriptCalls ''jsonp_3_2'' (JNum 7)]
                (snd (fetchJSONP 3 2 ''https://e/data'' None browser0))) =
     [ClearFunction ''jsonp_3_2'', RemoveScript ''callback_jsonp_3_2'']"
  by (simp add: fetchJSONP_def setTimeout_def jsonp_timeout_def clearFunction_def delete_global_def
      removeScript_def getElementById_def removeChild_def settle_def browser0_def
      jsonp_callbackFn_def jsonp_callbackFnName_def show_nat.simps digit_char_def indexOf_def Let_def)

text \<open>
  \<open>clearFunction\<close> catches what \<^verbatim>\<open>delete\<close> throws and overwrites the global instead;
  \<open>removeScript\<close> throws when no element of the document has the id.
\<close>

lemma clearFunction_swallows:
  "nodelete s n \<Longrightarrow>
   clearFunction n s = s\<lparr>cleanups := cleanups s @ [ClearFunction n],
                          window := (window s)(n := Some WUndefined)\<rparr>"
  by (simp add: clearFunction_def delete_global_def Let_def)

lemma removeScript_missing:
  "id_unused s i \<Longrightarrow> removeScript i s = Inl NullNode"
  by (auto simp add: removeScript_def getElementById_def removeChild_def id_unused_def Let_def
      find_None_iff split: option.splits)

text \<open>
  C7 on the code: an exception raised while removing the script element is not swallowed,
  since \<open>removeScript\<close> catches nothing. When the script element of a call is gone from
  the document by the time the callback runs, the exception of \<^verbatim>\<open>removeChild\<close> leaves the
  callback uncaught, after the promise has resolved, and the global callback is never
  deleted.
\<close>

theorem removeScript_exception_escapes:
  "removeScript ''callback_jsonp_3_2''
     ((snd (fetchJSONP 3 2 ''https://e/data'' None browser0))\<lparr>head_children := []\<rparr>) = Inl NullNode
   \<and> uncaught (jsonp_run (fst (fetchJSONP 3 2 ''https://e/data'' None browser0))
                [ScriptCalls ''jsonp_3_2'' (JNum 7)]
                ((snd (fetchJSONP 3 2 ''https://e/data'' None browser0))\<lparr>head_children := []\<rparr>))
       = [NullNode]
   \<and> cleanups (jsonp_run (fst (fetchJSONP 3 2 ''https://e/data'' None browser0))
                [ScriptCalls ''jsonp_3_2'' (JNum 7)]
                ((snd (fetchJSONP 3 2 ''https://e/data'' None browser0))\<lparr>head_children := []\<rparr>))
       = [ClearTimeout 1, RemoveScript ''callback_jsonp_3_2'']
   \<and> window (jsonp_run (fst (fetchJSONP 3 2 ''https://e/data'' None browser0))
                [ScriptCalls ''jsonp_3_2'' (JNum 7)]
                ((snd (fetchJSONP 3 2 ''https://e/data'' None browser0))\<lparr>head_children := []\<rparr>))
          ''jsonp_3_2'' = Some WCallback"
  by (simp add: fetchJSONP_def setTimeout_def jsonp_callback_def clearTimeout_def
      removeScript_def getElementById_def removeChild_def settle_def browser0_def
      jsonp_callbackFn_def jsonp_callbackFnName_def show_nat.simps digit_char_def indexOf_def Let_def)

end
